theory Spec2Isabelle
  imports Main
begin

section \<open>Go values: errors, panics, pointers\<close>

text \<open>
  A Go \<^verbatim>\<open>error\<close> is a chain of values linked by \<^verbatim>\<open>Unwrap\<close>. Four shapes occur in
  the session code: an \<^verbatim>\<open>sqlite3.Error\<close> (only its \<^verbatim>\<open>Code\<close> is read), an error that
  wraps nothing, an error made with \<^verbatim>\<open>%w\<close>, and the error built by
  \<^verbatim>\<open>ErrMaximumRetriesReached.Errorf("retry %d: %w", retry, err)\<close>. A \<^verbatim>\<open>nil\<close> error is
  \<open>None\<close>.
\<close>

text \<open>
  Modelled from the spec: package \<^verbatim>\<open>errutil\<close>, whose \<^verbatim>\<open>Errorf\<close> builds the last of these
  errors, is not among the sources. Section 4.4 of the spec makes it a distinguished
  "maximum retries reached" error that wraps the last underlying error and records the
  attempt number: the constructor \<open>MaximumRetriesReached\<close> keeps both, and \<^verbatim>\<open>Unwrap\<close> gives
  the wrapped error.
\<close>

datatype goerror =
    SqliteError int
  | OtherError string
  | WrappedError string goerror
  | MaximumRetriesReached int goerror

text \<open>The two \<^verbatim>\<open>sqlite3.ErrNo\<close> codes the retry closure looks for.\<close>

definition ErrBusy :: int where
  "ErrBusy = 5"

definition ErrLocked :: int where
  "ErrLocked = 6"

text \<open>
  \<^verbatim>\<open>errors.As(err, &sqlError)\<close> with \<^verbatim>\<open>sqlError\<close> of type \<^verbatim>\<open>sqlite3.Error\<close>: the first
  \<^verbatim>\<open>sqlite3.Error\<close> of the chain, read here through its code.
\<close>

fun errors_As :: "goerror \<Rightarrow> int option" where
  "errors_As (SqliteError code) = Some code"
| "errors_As (OtherError msg) = None"
| "errors_As (WrappedError msg e) = errors_As e"
| "errors_As (MaximumRetriesReached n e) = errors_As e"

text \<open>
  The test of line 87:
  \<^verbatim>\<open>errors.As(err, &sqlError) && (sqlError.Code == sqlite3.ErrLocked || sqlError.Code == sqlite3.ErrBusy)\<close>.
\<close>

definition isLockError :: "goerror option \<Rightarrow> bool" where
  "isLockError err =
     (case err of
        None \<Rightarrow> False
      | Some e \<Rightarrow>
          (case errors_As e of
             None \<Rightarrow> False
           | Some code \<Rightarrow> code = ErrLocked \<or> code = ErrBusy))"

text \<open>A call either returns or panics; a panic carries its message.\<close>

datatype 'a outcome = Returns 'a | Panics string

section \<open>Contexts, sessions and the store\<close>

text \<open>
  \<^verbatim>\<open>*DBSession\<close> and \<^verbatim>\<open>*xorm.Session\<close> are pointers to mutable objects, so both kinds
  of object live in a store and are named by their address. A \<^verbatim>\<open>*DBSession\<close> may be
  \<^verbatim>\<open>nil\<close> (\<open>None\<close>). Objects are never freed, so the store is total and a counter
  gives the next unused address. Every session of this code is built around
  \<^verbatim>\<open>engine.NewSession()\<close>, so the handle of a \<^verbatim>\<open>DBSession\<close> is never \<^verbatim>\<open>nil\<close>.
\<close>

type_synonym addr = nat
type_synonym haddr = nat

text \<open>
  What \<^verbatim>\<open>ctx.Value(ContextSessionKey{})\<close> gives: nothing, a value of another type, or
  a \<^verbatim>\<open>*DBSession\<close>.
\<close>

datatype ctx_value = NoValue | OtherValue | DBSessionPtr "addr option"

record Context =
  ctx_id :: nat
  ctx_session :: ctx_value

text \<open>
  \<^verbatim>\<open>xorm.Session\<close> belongs to a library; of its state the model keeps the context it
  is bound to, whether \<^verbatim>\<open>Begin\<close> has succeeded on it, and whether \<^verbatim>\<open>Close\<close> was called.
\<close>

record xorm_Session =
  sess_ctx :: Context
  inTransaction :: bool
  isClosed :: bool

record 'ev DBSession =
  Session :: haddr
  transactionOpen :: bool
  events :: "'ev list"

record ('ev, 'db) world =
  sessions :: "addr \<Rightarrow> 'ev DBSession"
  next_addr :: addr
  handles :: "haddr \<Rightarrow> xorm_Session"
  next_handle :: haddr
  db :: 'db

text \<open>
  The engine: the context its sessions start with, and what starting a transaction does
  to the database (an error, or none).
\<close>

record 'db Engine =
  defaultContext :: Context
  beginTx :: "'db \<Rightarrow> goerror option \<times> 'db"

record DatabaseConfig =
  QueryRetries :: int

record 'db SQLStore =
  engine :: "'db Engine"
  dbCfg :: DatabaseConfig

type_synonym ('ev, 'db) DBTransactionFunc =
  "addr option \<Rightarrow> ('ev, 'db) world \<Rightarrow> goerror option outcome \<times> ('ev, 'db) world"

subsection \<open>The operations of xorm the session code calls\<close>

definition NewSession :: "'db Engine \<Rightarrow> ('ev, 'db) world \<Rightarrow> haddr \<times> ('ev, 'db) world" where
  "NewSession eng w =
     (let h = next_handle w in
      (h, w\<lparr>handles := (handles w)
                (h := \<lparr>sess_ctx = defaultContext eng, inTransaction = False, isClosed = False\<rparr>),
             next_handle := h + 1\<rparr>))"

definition Session_Context :: "haddr \<Rightarrow> Context \<Rightarrow> ('ev, 'db) world \<Rightarrow> haddr \<times> ('ev, 'db) world" where
  "Session_Context h ctx w =
     (h, w\<lparr>handles := (handles w)(h := (handles w h)\<lparr>sess_ctx := ctx\<rparr>)\<rparr>)"

definition Session_Begin :: "'db Engine \<Rightarrow> haddr \<Rightarrow> ('ev, 'db) world \<Rightarrow> goerror option \<times> ('ev, 'db) world" where
  "Session_Begin eng h w =
     (case beginTx eng (db w) of
        (Some e, d) \<Rightarrow> (Some e, w\<lparr>db := d\<rparr>)
      | (None, d) \<Rightarrow>
          (None, w\<lparr>handles := (handles w)(h := (handles w h)\<lparr>inTransaction := True\<rparr>),
                   db := d\<rparr>))"

definition Session_Close :: "haddr \<Rightarrow> ('ev, 'db) world \<Rightarrow> ('ev, 'db) world" where
  "Session_Close h w = w\<lparr>handles := (handles w)(h := (handles w h)\<lparr>isClosed := True\<rparr>)\<rparr>"

section \<open>Post-commit events\<close>

text \<open>
  \<^verbatim>\<open>sess.events = append(sess.events, msg)\<close>: the receiver goes in and comes out updated.
\<close>

definition publishAfterCommit :: "'ev DBSession \<Rightarrow> 'ev \<Rightarrow> 'ev DBSession" where
  "publishAfterCommit sess msg = sess\<lparr>events := events sess @ [msg]\<rparr>"

definition PublishAfterCommit :: "'ev DBSession \<Rightarrow> 'ev \<Rightarrow> 'ev DBSession" where
  "PublishAfterCommit sess msg = sess\<lparr>events := events sess @ [msg]\<rparr>"

section \<open>Session acquisition\<close>

text \<open>
  \<^verbatim>\<open>new(DBSession)\<close> filled with the given fields: the object is stored at the next unused
  address.
\<close>

definition new_DBSession :: "'ev DBSession \<Rightarrow> ('ev, 'db) world \<Rightarrow> addr \<times> ('ev, 'db) world" where
  "new_DBSession s w =
     (let a = next_addr w in
      (a, w\<lparr>sessions := (sessions w)(a := s), next_addr := a + 1\<rparr>))"

text \<open>
  The result is the triple \<^verbatim>\<open>(*DBSession, bool, error)\<close>. Reading
  \<^verbatim>\<open>sess.transactionOpen\<close> through a \<^verbatim>\<open>nil\<close> pointer of type \<^verbatim>\<open>*DBSession\<close> found in the
  context panics. The log lines are not modelled.
\<close>

definition startSessionOrUseExisting ::
  "Context \<Rightarrow> 'db Engine \<Rightarrow> bool \<Rightarrow> ('ev, 'db) world
   \<Rightarrow> (addr option \<times> bool \<times> goerror option) outcome \<times> ('ev, 'db) world" where
  "startSessionOrUseExisting ctx eng beginTran w =
     (case ctx_session ctx of
        DBSessionPtr p \<Rightarrow>
          (case p of
             None \<Rightarrow> (Panics ''nil pointer dereference'', w)
           | Some a \<Rightarrow>
               (let (h, w1) = Session_Context (Session (sessions w a)) ctx w;
                    w2 = w1\<lparr>sessions := (sessions w1)(a := (sessions w1 a)\<lparr>Session := h\<rparr>)\<rparr>
                in (Returns (Some a, False, None), w2)))
      | _ \<Rightarrow>
          (let (h, w1) = NewSession eng w;
               (a, w2) = new_DBSession
                           \<lparr>Session = h, transactionOpen = beginTran, events = []\<rparr> w1;
               (err, w3) = (if beginTran
                            then Session_Begin eng (Session (sessions w2 a)) w2
                            else (None, w2))
           in if err \<noteq> None then (Returns (None, False, err), w3)
              else
                (let (h', w4) = Session_Context (Session (sessions w3 a)) ctx w3;
                     w5 = w4\<lparr>sessions := (sessions w4)(a := (sessions w4 a)\<lparr>Session := h'\<rparr>)\<rparr>
                 in (Returns (Some a, True, None), w5))))"

section \<open>The retry executor\<close>

datatype RetrySignal = FuncFailure | FuncComplete | FuncError

text \<open>
  The closure \<^verbatim>\<open>retryOnLocks\<close> returns. Its captured counter \<^verbatim>\<open>retry\<close> is the first
  component of the state it runs on; the caller supplies its starting value. A panic of the
  callback leaves the closure after \<^verbatim>\<open>retry++\<close>. The context only feeds the logger. Where
  the test of line 87 holds the error is not \<^verbatim>\<open>nil\<close>, so \<open>the err\<close> is that error. The
  counter starts at 0 and grows by one per attempt, far from the range of a machine
  \<^verbatim>\<open>int\<close>, so it is an unbounded integer here.
\<close>

definition retryOnLocks ::
  "'db SQLStore \<Rightarrow> Context \<Rightarrow> ('ev, 'db) DBTransactionFunc \<Rightarrow> addr option
   \<Rightarrow> int \<times> ('ev, 'db) world
   \<Rightarrow> (RetrySignal \<times> goerror option) outcome \<times> (int \<times> ('ev, 'db) world)" where
  "retryOnLocks ss ctx callback sess st =
     (let retry = fst st + 1 in
      case callback sess (snd st) of
        (Panics msg, w) \<Rightarrow> (Panics msg, (retry, w))
      | (Returns err, w) \<Rightarrow>
          (if isLockError err then
             (if retry = QueryRetries (dbCfg ss)
              then (Returns (FuncError, Some (MaximumRetriesReached retry (the err))), (retry, w))
              else (Returns (FuncFailure, None), (retry, w)))
           else if err \<noteq> None then (Returns (FuncError, err), (retry, w))
           else (Returns (FuncComplete, None), (retry, w))))"

text \<open>
  Modelled from the spec: \<^verbatim>\<open>retryer.Retry\<close> (package \<^verbatim>\<open>pkg/util/retryer\<close>) is not among the
  sources. Section 4.4 of the spec has the callback executed up to the configured number of
  times: an attempt that ends with an error stops the loop with that error, a completed
  attempt stops it with success, and after a retryable failure the loop waits, with a delay
  that doubles from the minimum and is capped by the maximum, before the next attempt. The
  comment at lines 89-90 of the source adds that the error of an attempt is returned at once,
  whatever the signal. An attempt that neither fails with an error nor completes counts as
  a retryable failure. The first attempt is always made; a loop that has used up its
  attempts gives up with an error of its own. Durations are nanoseconds; waiting changes
  nothing in the state. A panic of the body leaves the loop.
\<close>

function Retry_loop ::
  "('s \<Rightarrow> (RetrySignal \<times> goerror option) outcome \<times> 's) \<Rightarrow> int \<Rightarrow> int \<Rightarrow> int \<Rightarrow> int \<Rightarrow> 's
   \<Rightarrow> goerror option outcome \<times> 's" where
  "Retry_loop body maxRetries maxDelay retries currentDelay s =
     (case body s of
        (Panics msg, s') \<Rightarrow> (Panics msg, s')
      | (Returns (response, err), s') \<Rightarrow>
          (if err \<noteq> None then (Returns err, s')
           else if response = FuncComplete then (Returns None, s')
           else if maxRetries \<le> retries + 1
           then (Returns (Some (OtherError ''max retries exceeded'')), s')
           else Retry_loop body maxRetries maxDelay (retries + 1)
                  (min (currentDelay * 2) maxDelay) s'))"
  by pat_completeness auto
termination
  by (relation "measure (\<lambda>(body, maxRetries, maxDelay, retries, currentDelay, s).
                   nat (maxRetries - retries))") auto

declare Retry_loop.simps [simp del]

text \<open>
  Modelled from the spec: the entry point of the loop. The retry count starts at zero and
  the delay at the minimum.
\<close>

definition Retry ::
  "('s \<Rightarrow> (RetrySignal \<times> goerror option) outcome \<times> 's) \<Rightarrow> int \<Rightarrow> int \<Rightarrow> int \<Rightarrow> 's
   \<Rightarrow> goerror option outcome \<times> 's" where
  "Retry body maxRetries minDelay maxDelay s = Retry_loop body maxRetries maxDelay 0 minDelay s"

definition Millisecond :: int where
  "Millisecond = 1000000"

definition Second :: int where
  "Second = 1000000000"

section \<open>Work execution\<close>

text \<open>
  \<^verbatim>\<open>defer sess.Close()\<close> fixes the receiver \<^verbatim>\<open>sess.Session\<close> when the \<^verbatim>\<open>defer\<close> statement
  runs (a \<^verbatim>\<open>nil\<close> \<^verbatim>\<open>sess\<close> panics there) and calls \<^verbatim>\<open>Close\<close> on it when the function
  leaves, by return or by panic.
\<close>

definition withDbSession ::
  "'db SQLStore \<Rightarrow> Context \<Rightarrow> 'db Engine \<Rightarrow> ('ev, 'db) DBTransactionFunc \<Rightarrow> ('ev, 'db) world
   \<Rightarrow> goerror option outcome \<times> ('ev, 'db) world" where
  "withDbSession ss ctx eng callback w =
     (case startSessionOrUseExisting ctx eng False w of
        (Panics msg, w1) \<Rightarrow> (Panics msg, w1)
      | (Returns (sess, isNew, err), w1) \<Rightarrow>
          (if err \<noteq> None then (Returns err, w1)
           else if isNew then
             (case sess of
                None \<Rightarrow> (Panics ''nil pointer dereference'', w1)
              | Some a \<Rightarrow>
                  (let h = Session (sessions w1 a);
                       (res, st) = Retry (retryOnLocks ss ctx callback sess)
                                     (QueryRetries (dbCfg ss)) (Millisecond * 10) Second (0, w1)
                   in (res, Session_Close h (snd st))))
           else
             (let (res, st) = Retry (retryOnLocks ss ctx callback sess)
                                (QueryRetries (dbCfg ss)) (Millisecond * 10) Second (0, w1)
              in (res, snd st))))"

definition WithDbSession ::
  "'db SQLStore \<Rightarrow> Context \<Rightarrow> ('ev, 'db) DBTransactionFunc \<Rightarrow> ('ev, 'db) world
   \<Rightarrow> goerror option outcome \<times> ('ev, 'db) world" where
  "WithDbSession ss ctx callback w = withDbSession ss ctx (engine ss) callback w"

definition WithNewDbSession ::
  "'db SQLStore \<Rightarrow> Context \<Rightarrow> ('ev, 'db) DBTransactionFunc \<Rightarrow> ('ev, 'db) world
   \<Rightarrow> goerror option outcome \<times> ('ev, 'db) world" where
  "WithNewDbSession ss ctx callback w =
     (let (h, w1) = NewSession (engine ss) w;
          (a, w2) = new_DBSession \<lparr>Session = h, transactionOpen = False, events = []\<rparr> w1;
          h' = Session (sessions w2 a);
          (res, st) = Retry (retryOnLocks ss ctx callback (Some a))
                        (QueryRetries (dbCfg ss)) (Millisecond * 10) Second (0, w2)
      in (res, Session_Close h' (snd st)))"

section \<open>Insert with generated identifier\<close>

text \<open>
  \<^verbatim>\<open>reflect.Type\<close> as far as \<^verbatim>\<open>getTypeName\<close> reads it: a named type or a pointer to a type.
\<close>

datatype rtype = Named string | Ptr rtype

fun getTypeName_of :: "rtype \<Rightarrow> string" where
  "getTypeName_of (Named n) = n"
| "getTypeName_of (Ptr t) = getTypeName_of t"

text \<open>
  What \<^verbatim>\<open>InsertId\<close> calls outside this file: \<^verbatim>\<open>reflect.TypeOf\<close> (\<open>None\<close> for a \<^verbatim>\<open>nil\<close>
  bean), the table mapper, the two hooks of the dialect and \<^verbatim>\<open>InsertOne\<close> of the session.
  The hooks and the insert act on the database.
\<close>

record ('b, 'db) insert_env =
  TypeOf :: "'b \<Rightarrow> rtype option"
  Obj2Table :: "string \<Rightarrow> string"
  PreInsertId :: "string \<Rightarrow> 'db \<Rightarrow> goerror option \<times> 'db"
  InsertOne :: "'b \<Rightarrow> 'db \<Rightarrow> (int \<times> goerror option) \<times> 'db"
  PostInsertId :: "string \<Rightarrow> 'db \<Rightarrow> goerror option \<times> 'db"

definition getTypeName :: "('b, 'db) insert_env \<Rightarrow> 'b \<Rightarrow> string outcome" where
  "getTypeName env bean =
     (case TypeOf env bean of
        None \<Rightarrow> Panics ''nil pointer dereference''
      | Some t \<Rightarrow> Returns (getTypeName_of t))"

definition InsertId ::
  "('b, 'db) insert_env \<Rightarrow> 'b \<Rightarrow> 'db \<Rightarrow> (int \<times> goerror option) outcome \<times> 'db" where
  "InsertId env bean d =
     (case getTypeName env bean of
        Panics msg \<Rightarrow> (Panics msg, d)
      | Returns name \<Rightarrow>
          (let table = Obj2Table env name in
           case PreInsertId env table d of
             (Some err, d1) \<Rightarrow> (Returns (0, Some err), d1)
           | (None, d1) \<Rightarrow>
               (case InsertOne env bean d1 of
                  ((id', Some err), d2) \<Rightarrow> (Returns (0, Some err), d2)
                | ((id', None), d2) \<Rightarrow>
                    (case PostInsertId env table d2 of
                       (Some err, d3) \<Rightarrow> (Returns (0, Some err), d3)
                     | (None, d3) \<Rightarrow> (Returns (id', None), d3)))))"

section \<open>Notions used to state the properties\<close>

text \<open>The effect of one call of the callback on the store and the database.\<close>

definition attempt ::
  "('ev, 'db) DBTransactionFunc \<Rightarrow> addr option \<Rightarrow> ('ev, 'db) world \<Rightarrow> ('ev, 'db) world" where
  "attempt callback sess w = snd (callback sess w)"

text \<open>
  The store once \<^verbatim>\<open>WithNewDbSession\<close> has built its session and before the callback runs.
\<close>

definition fresh_session :: "'db Engine \<Rightarrow> ('ev, 'db) world \<Rightarrow> ('ev, 'db) world" where
  "fresh_session eng w =
     snd (new_DBSession \<lparr>Session = next_handle w, transactionOpen = False, events = []\<rparr>
            (snd (NewSession eng w)))"

subsection \<open>Example inputs\<close>

text \<open>
  A context without a session and one that carries the session at address 0; an engine
  whose transactions start and one whose transactions do not; a store configured with five
  retries; a world that holds one open session with one queued event; a callback that always
  meets a busy database and one that fails for another reason, each counting its calls in
  the database.
\<close>

definition ctx_plain :: Context where
  "ctx_plain = \<lparr>ctx_id = 1, ctx_session = NoValue\<rparr>"

definition ctx_with_session :: Context where
  "ctx_with_session = \<lparr>ctx_id = 2, ctx_session = DBSessionPtr (Some 0)\<rparr>"

definition engine_ok :: "nat Engine" where
  "engine_ok = \<lparr>defaultContext = \<lparr>ctx_id = 0, ctx_session = NoValue\<rparr>,
                 beginTx = (\<lambda>d. (None, d))\<rparr>"

definition engine_no_tx :: "nat Engine" where
  "engine_no_tx = \<lparr>defaultContext = \<lparr>ctx_id = 0, ctx_session = NoValue\<rparr>,
                    beginTx = (\<lambda>d. (Some (OtherError ''no connection''), d))\<rparr>"

definition store5 :: "nat SQLStore" where
  "store5 = \<lparr>engine = engine_ok, dbCfg = \<lparr>QueryRetries = 5\<rparr>\<rparr>"

definition world1 :: "(string, nat) world" where
  "world1 = \<lparr>sessions = (\<lambda>a. \<lparr>Session = 0, transactionOpen = False, events = [''e'']\<rparr>),
             next_addr = 1,
             handles = (\<lambda>h. \<lparr>sess_ctx = \<lparr>ctx_id = 0, ctx_session = NoValue\<rparr>,
                               inTransaction = False, isClosed = False\<rparr>),
             next_handle = 1,
             db = 0\<rparr>"

definition busy_callback :: "(string, nat) DBTransactionFunc" where
  "busy_callback sess w = (Returns (Some (SqliteError ErrBusy)), w\<lparr>db := db w + 1\<rparr>)"

definition failing_callback :: "(string, nat) DBTransactionFunc" where
  "failing_callback sess w = (Returns (Some (OtherError ''constraint'')), w\<lparr>db := db w + 1\<rparr>)"

text \<open>
  Two dialects over a database that is the list of inserted rows: the insert reports the
  identifier 42; in one the hook after the insert fails, in the other the hook before it.
\<close>

definition env_post_fails :: "(string, string list) insert_env" where
  "env_post_fails =
     \<lparr>TypeOf = (\<lambda>b. Some (Ptr (Named b))),
      Obj2Table = (\<lambda>n. n),
      PreInsertId = (\<lambda>t d. (None, d)),
      InsertOne = (\<lambda>b d. ((42, None), d @ [b])),
      PostInsertId = (\<lambda>t d. (Some (OtherError ''post hook''), d))\<rparr>"

definition env_pre_fails :: "(string, string list) insert_env" where
  "env_pre_fails = env_post_fails\<lparr>PreInsertId := (\<lambda>t d. (Some (OtherError ''pre hook''), d))\<rparr>"

section \<open>Properties\<close>

subsection \<open>The retry loop and the closure\<close>

text \<open>One run of the closure: the counter goes up by one and the callback runs once.\<close>

lemma retryOnLocks_state:
  "snd (retryOnLocks ss ctx callback sess (r, w)) = (r + 1, attempt callback sess w)"
  by (simp add: retryOnLocks_def attempt_def Let_def split: prod.splits outcome.splits)

lemma retryOnLocks_locked_last:
  "fst (callback sess w) = Returns (Some e) \<Longrightarrow> isLockError (Some e)
   \<Longrightarrow> r + 1 = QueryRetries (dbCfg ss)
   \<Longrightarrow> retryOnLocks ss ctx callback sess (r, w)
       = (Returns (FuncError, Some (MaximumRetriesReached (r + 1) e)),
          (r + 1, attempt callback sess w))"
  by (cases "callback sess w") (simp add: retryOnLocks_def attempt_def Let_def)

lemma retryOnLocks_locked_more:
  "fst (callback sess w) = Returns (Some e) \<Longrightarrow> isLockError (Some e)
   \<Longrightarrow> r + 1 \<noteq> QueryRetries (dbCfg ss)
   \<Longrightarrow> retryOnLocks ss ctx callback sess (r, w)
       = (Returns (FuncFailure, None), (r + 1, attempt callback sess w))"
  by (cases "callback sess w") (simp add: retryOnLocks_def attempt_def)

lemma retryOnLocks_other_error:
  "fst (callback sess w) = Returns (Some e) \<Longrightarrow> \<not> isLockError (Some e)
   \<Longrightarrow> retryOnLocks ss ctx callback sess (r, w)
       = (Returns (FuncError, Some e), (r + 1, attempt callback sess w))"
  by (cases "callback sess w") (simp add: retryOnLocks_def attempt_def)

lemma retryOnLocks_ctx: "retryOnLocks ss ctx callback sess = retryOnLocks ss ctx' callback sess"
  by (rule ext) (simp add: retryOnLocks_def)

lemma retryOnLocks_callback:
  "(\<And>x. callback sess x = callback' sess x)
   \<Longrightarrow> retryOnLocks ss ctx callback sess = retryOnLocks ss ctx callback' sess"
  by (rule ext) (simp add: retryOnLocks_def)

text \<open>
  Whatever the loop returns, the counter has grown by the number of calls of the callback,
  at least one, and the world is the one these calls leave.
\<close>

lemma Retry_loop_trace:
  "Retry_loop (retryOnLocks ss ctx callback sess) m md k d (r, w) = (out, (r', w'))
   \<Longrightarrow> r < r' \<and> w' = (attempt callback sess ^^ nat (r' - r)) w"
proof (induction "retryOnLocks ss ctx callback sess" m md k d "(r, w)" arbitrary: r w
       rule: Retry_loop.induct)
  case (1 m md k d)
  let ?b = "retryOnLocks ss ctx callback sess"
  obtain o1 where b: "?b (r, w) = (o1, (r + 1, attempt callback sess w))"
    using retryOnLocks_state [of ss ctx callback sess r w] by (cases "?b (r, w)") auto
  show ?case
  proof (cases o1)
    case (Panics msg)
    with b "1.prems" show ?thesis
      by (auto simp add: Retry_loop.simps [of ?b m md k d "(r, w)"])
  next
    case (Returns p)
    obtain response err where p: "p = (response, err)" by (cases p)
    show ?thesis
    proof (cases "err \<noteq> None \<or> response = FuncComplete \<or> m \<le> k + 1")
      case True
      with b Returns p "1.prems" show ?thesis
        by (auto simp add: Retry_loop.simps [of ?b m md k d "(r, w)"] split: if_splits)
    next
      case False
      with b Returns p "1.prems"
      have rec: "Retry_loop ?b m md (k + 1) (min (d * 2) md) (r + 1, attempt callback sess w)
                 = (out, (r', w'))"
        by (simp add: Retry_loop.simps [of ?b m md k d "(r, w)"])
      from False b Returns p
      have "r + 1 < r'
            \<and> w' = (attempt callback sess ^^ nat (r' - (r + 1))) (attempt callback sess w)"
        using "1.hyps" [OF b [symmetric] Returns p [symmetric] _ _ _ rec] by simp
      then have lt: "r + 1 < r'"
        and w': "w' = (attempt callback sess ^^ nat (r' - (r + 1))) (attempt callback sess w)"
        by simp_all
      have "nat (r' - r) = Suc (nat (r' - (r + 1)))" using lt by simp
      then have "(attempt callback sess ^^ nat (r' - r)) w
                 = (attempt callback sess ^^ nat (r' - (r + 1))) (attempt callback sess w)"
        by (simp add: funpow_swap1)
      with lt w' show ?thesis by simp
    qed
  qed
qed

lemma Retry_trace:
  "\<exists>n>0. snd (snd (Retry (retryOnLocks ss ctx callback sess) m d1 d2 (r, w)))
          = (attempt callback sess ^^ n) w"
proof -
  obtain out r' w' where run: "Retry_loop (retryOnLocks ss ctx callback sess) m d2 0 d1 (r, w)
                               = (out, (r', w'))"
    by (metis surj_pair)
  from Retry_loop_trace [OF run]
  have "0 < nat (r' - r)" and "w' = (attempt callback sess ^^ nat (r' - r)) w" by simp_all
  with run
  have "0 < nat (r' - r) \<and> snd (snd (Retry (retryOnLocks ss ctx callback sess) m d1 d2 (r, w)))
          = (attempt callback sess ^^ nat (r' - r)) w"
    by (simp add: Retry_def)
  then show ?thesis by blast
qed

lemma funpow_keeps:
  "(\<And>x. P (f x) = P x) \<Longrightarrow> P ((f ^^ n) x) = P x"
  by (induction n) simp_all

text \<open>
  A callback that meets lock contention on each of the attempts still allowed: the loop
  runs until the counter reaches the configured number and ends with the error of the
  closure.
\<close>

lemma Retry_loop_always_locked:
  "nat (QueryRetries (dbCfg ss) - r) = Suc n
   \<Longrightarrow> (\<And>k. k \<le> n \<Longrightarrow> \<exists>e. fst (callback sess ((attempt callback sess ^^ k) w)) = Returns (Some e)
                          \<and> isLockError (Some e))
   \<Longrightarrow> \<exists>e. fst (callback sess ((attempt callback sess ^^ n) w)) = Returns (Some e)
          \<and> isLockError (Some e)
          \<and> Retry_loop (retryOnLocks ss ctx callback sess) (QueryRetries (dbCfg ss)) md r d (r, w)
              = (Returns (Some (MaximumRetriesReached (QueryRetries (dbCfg ss)) e)),
                 (QueryRetries (dbCfg ss), (attempt callback sess ^^ Suc n) w))"
proof (induction n arbitrary: r d w)
  case 0
  then have last: "r + 1 = QueryRetries (dbCfg ss)" by simp
  from "0.prems" (2) [of 0]
  obtain e where e: "fst (callback sess w) = Returns (Some e)" "isLockError (Some e)"
    by auto
  have step: "retryOnLocks ss ctx callback sess (r, w)
        = (Returns (FuncError, Some (MaximumRetriesReached (r + 1) e)),
           (r + 1, attempt callback sess w))"
    by (rule retryOnLocks_locked_last) (simp_all add: e last)
  have "Retry_loop (retryOnLocks ss ctx callback sess) (QueryRetries (dbCfg ss)) md r d (r, w)
        = (Returns (Some (MaximumRetriesReached (r + 1) e)), (r + 1, attempt callback sess w))"
    by (simp add: Retry_loop.simps [of _ _ _ _ _ "(r, w)"] step)
  with e last show ?case by simp
next
  case (Suc n)
  from Suc.prems (1)
  have more: "r + 1 \<noteq> QueryRetries (dbCfg ss)" and go: "\<not> QueryRetries (dbCfg ss) \<le> r + 1"
    and next_n: "nat (QueryRetries (dbCfg ss) - (r + 1)) = Suc n"
    by simp_all
  from Suc.prems (2) [of 0]
  obtain e where e: "fst (callback sess w) = Returns (Some e)" "isLockError (Some e)"
    by auto
  have step: "retryOnLocks ss ctx callback sess (r, w)
        = (Returns (FuncFailure, None), (r + 1, attempt callback sess w))"
    by (rule retryOnLocks_locked_more [where e = e]) (simp_all add: e more)
  have unfold: "Retry_loop (retryOnLocks ss ctx callback sess) (QueryRetries (dbCfg ss)) md r d (r, w)
        = Retry_loop (retryOnLocks ss ctx callback sess) (QueryRetries (dbCfg ss)) md (r + 1)
            (min (d * 2) md) (r + 1, attempt callback sess w)"
    using go by (simp add: Retry_loop.simps [of _ _ _ _ _ "(r, w)"] step)
  have later: "\<exists>e. fst (callback sess ((attempt callback sess ^^ k) (attempt callback sess w)))
                    = Returns (Some e) \<and> isLockError (Some e)" if "k \<le> n" for k
    using Suc.prems (2) [of "Suc k"] that by (simp add: funpow_swap1)
  from Suc.IH [OF next_n later, of "min (d * 2) md"] unfold
  show ?case by (simp add: funpow_swap1)
qed

text \<open>
  C1. With \<^verbatim>\<open>QueryRetries = 5\<close> and a callback that meets a locked or busy database on
  each of its first five calls, the retry executor, as both work-execution entry points
  start it, calls the callback exactly five times (the counter of the closure ends at 5
  and the world is the one five calls leave) and returns the maximum-retries-reached error
  that records the attempt number 5 and wraps the error of the fifth call.
\<close>

theorem Retry_always_locked_five_attempts:
  assumes five: "QueryRetries (dbCfg ss) = 5"
    and locked: "\<forall>k<5. \<exists>e. fst (callback sess ((attempt callback sess ^^ k) w)) = Returns (Some e)
                         \<and> isLockError (Some e)"
  shows "\<exists>e. fst (callback sess ((attempt callback sess ^^ 4) w)) = Returns (Some e)
           \<and> isLockError (Some e)
           \<and> Retry (retryOnLocks ss ctx callback sess) (QueryRetries (dbCfg ss))
                 (Millisecond * 10) Second (0, w)
               = (Returns (Some (MaximumRetriesReached 5 e)),
                  (5, (attempt callback sess ^^ 5) w))"
proof -
  have n: "nat (QueryRetries (dbCfg ss) - 0) = Suc 4" using five by simp
  have each: "\<exists>e. fst (callback sess ((attempt callback sess ^^ k) w)) = Returns (Some e)
                   \<and> isLockError (Some e)" if "k \<le> 4" for k
    using locked that by simp
  have "\<exists>e. fst (callback sess ((attempt callback sess ^^ 4) w)) = Returns (Some e)
          \<and> isLockError (Some e)
          \<and> Retry_loop (retryOnLocks ss ctx callback sess) (QueryRetries (dbCfg ss)) Second 0
                (Millisecond * 10) (0, w)
              = (Returns (Some (MaximumRetriesReached (QueryRetries (dbCfg ss)) e)),
                 (QueryRetries (dbCfg ss), (attempt callback sess ^^ Suc 4) w))"
    using n each by (rule Retry_loop_always_locked)
  with five show ?thesis
    by (auto simp add: Retry_def eval_nat_numeral)
qed

theorem Retry_always_locked_five_attempts_witness:
  "Retry (retryOnLocks store5 ctx_plain busy_callback (Some 0)) (QueryRetries (dbCfg store5))
     (Millisecond * 10) Second (0, world1)
   = (Returns (Some (MaximumRetriesReached 5 (SqliteError 5))), (5, world1\<lparr>db := 5\<rparr>))"
  using Retry_always_locked_five_attempts [of store5 busy_callback "Some 0" world1 ctx_plain]
  by (simp add: store5_def busy_callback_def attempt_def isLockError_def ErrBusy_def
        eval_nat_numeral world1_def)

text \<open>
  C2. A callback whose first call returns an error that is not a locked or busy error of
  sqlite: the retry executor returns after that one call (the counter of the closure is
  1, the world is the one the call left) with the very error the callback returned,
  whatever the configured number of retries.
\<close>

theorem Retry_other_error_single_attempt:
  assumes "callback sess w = (Returns (Some e), w')" and "\<not> isLockError (Some e)"
  shows "Retry (retryOnLocks ss ctx callback sess) (QueryRetries (dbCfg ss))
           (Millisecond * 10) Second (0, w)
         = (Returns (Some e), (1, w'))"
proof -
  have "retryOnLocks ss ctx callback sess (0, w)
        = (Returns (FuncError, Some e), (0 + 1, attempt callback sess w))"
    by (rule retryOnLocks_other_error) (simp_all add: assms)
  with assms show ?thesis
    by (simp add: Retry_def Retry_loop.simps [of _ _ _ _ _ "(0, w)"] attempt_def)
qed

theorem Retry_other_error_single_attempt_witness:
  "Retry (retryOnLocks store5 ctx_plain failing_callback (Some 0)) (QueryRetries (dbCfg store5))
     (Millisecond * 10) Second (0, world1)
   = (Returns (Some (OtherError ''constraint'')), (1, world1\<lparr>db := 1\<rparr>))"
  using Retry_other_error_single_attempt
          [of failing_callback "Some 0" world1 "OtherError ''constraint''" "world1\<lparr>db := 1\<rparr>"
              store5 ctx_plain]
  by (simp add: failing_callback_def isLockError_def world1_def)

subsection \<open>Session acquisition\<close>

text \<open>
  C3. When the context carries a session, acquisition returns the pointer found in the
  context with \<^verbatim>\<open>isNewlyCreated = false\<close>; no session object changes, no object is
  created, and the only change in the world is that the handle of that session is now
  bound to the context of the call. The world it leaves still holds the session, so a later
  acquisition with any context that carries the same pointer returns it again.
\<close>

theorem startSessionOrUseExisting_reuses_session:
  assumes "ctx_session ctx = DBSessionPtr (Some a)"
  shows "startSessionOrUseExisting ctx eng beginTran w
         = (Returns (Some a, False, None),
            w\<lparr>handles := (handles w)
                 (Session (sessions w a) := (handles w (Session (sessions w a)))\<lparr>sess_ctx := ctx\<rparr>)\<rparr>)
       \<and> (ctx_session ctx' = DBSessionPtr (Some a) \<longrightarrow>
            fst (startSessionOrUseExisting ctx' eng beginTran'
                   (snd (startSessionOrUseExisting ctx eng beginTran w)))
            = Returns (Some a, False, None)
          \<and> sessions (snd (startSessionOrUseExisting ctx' eng beginTran'
                   (snd (startSessionOrUseExisting ctx eng beginTran w))))
            = sessions w)"
  using assms by (simp add: startSessionOrUseExisting_def Session_Context_def)

theorem startSessionOrUseExisting_reuses_session_witness:
  "fst (startSessionOrUseExisting ctx_with_session engine_ok True world1)
   = Returns (Some 0, False, None)
   \<and> sess_ctx (handles (snd (startSessionOrUseExisting ctx_with_session engine_ok True world1)) 0)
     = ctx_with_session
   \<and> fst (startSessionOrUseExisting (ctx_with_session\<lparr>ctx_id := 3\<rparr>) engine_ok False
            (snd (startSessionOrUseExisting ctx_with_session engine_ok True world1)))
     = Returns (Some 0, False, None)"
proof -
  have carried: "ctx_session ctx_with_session = DBSessionPtr (Some 0)"
    "ctx_session (ctx_with_session\<lparr>ctx_id := 3\<rparr>) = DBSessionPtr (Some 0)"
    by (simp_all add: ctx_with_session_def)
  have handle: "Session (sessions world1 0) = 0"
    by (simp add: world1_def)
  note reuse = startSessionOrUseExisting_reuses_session
         [OF carried(1), of engine_ok True world1 "ctx_with_session\<lparr>ctx_id := 3\<rparr>" False]
  from reuse
  have first: "startSessionOrUseExisting ctx_with_session engine_ok True world1
               = (Returns (Some 0, False, None),
                  world1\<lparr>handles := (handles world1)
                    (Session (sessions world1 0) :=
                       (handles world1 (Session (sessions world1 0)))\<lparr>sess_ctx := ctx_with_session\<rparr>)\<rparr>)"
    by blast
  from reuse carried(2)
  have later: "fst (startSessionOrUseExisting (ctx_with_session\<lparr>ctx_id := 3\<rparr>) engine_ok False
                     (snd (startSessionOrUseExisting ctx_with_session engine_ok True world1)))
               = Returns (Some 0, False, None)"
    by blast
  from first handle
  have "fst (startSessionOrUseExisting ctx_with_session engine_ok True world1)
        = Returns (Some 0, False, None)"
    and "sess_ctx (handles (snd (startSessionOrUseExisting ctx_with_session engine_ok True world1)) 0)
         = ctx_with_session"
    by simp_all
  with later show ?thesis by blast
qed

text \<open>
  C4. When the context carries no session, acquisition builds a session at an address not
  used before and leaves every other session and handle as it was. If a transaction was
  asked for and cannot be started, the result is the error of \<^verbatim>\<open>Begin\<close> with no session
  and \<^verbatim>\<open>isNewlyCreated = false\<close>. Otherwise the result is the new session with
  \<^verbatim>\<open>isNewlyCreated = true\<close>; its \<^verbatim>\<open>transactionOpen\<close> is the flag asked for, its handle is
  bound to the context, is open, and is in a transaction exactly when one was asked for.
\<close>

theorem startSessionOrUseExisting_new_session:
  assumes "\<forall>p. ctx_session ctx \<noteq> DBSessionPtr p"
  shows "(beginTran \<and> fst (beginTx eng (db w)) \<noteq> None \<longrightarrow>
            fst (startSessionOrUseExisting ctx eng beginTran w)
            = Returns (None, False, fst (beginTx eng (db w))))
       \<and> (\<not> beginTran \<or> fst (beginTx eng (db w)) = None \<longrightarrow>
            fst (startSessionOrUseExisting ctx eng beginTran w)
            = Returns (Some (next_addr w), True, None)
          \<and> sessions (snd (startSessionOrUseExisting ctx eng beginTran w)) (next_addr w)
            = \<lparr>Session = next_handle w, transactionOpen = beginTran, events = []\<rparr>
          \<and> handles (snd (startSessionOrUseExisting ctx eng beginTran w)) (next_handle w)
            = \<lparr>sess_ctx = ctx, inTransaction = beginTran, isClosed = False\<rparr>)
       \<and> (\<forall>b. b \<noteq> next_addr w \<longrightarrow>
            sessions (snd (startSessionOrUseExisting ctx eng beginTran w)) b = sessions w b)
       \<and> (\<forall>h. h \<noteq> next_handle w \<longrightarrow>
            handles (snd (startSessionOrUseExisting ctx eng beginTran w)) h = handles w h)"
  using assms
  by (cases "ctx_session ctx"; cases "beginTx eng (db w)"; cases "fst (beginTx eng (db w))")
     (auto simp add: startSessionOrUseExisting_def Session_Context_def NewSession_def
       new_DBSession_def Session_Begin_def Let_def)

theorem startSessionOrUseExisting_new_session_witness:
  "fst (startSessionOrUseExisting ctx_plain engine_ok True world1) = Returns (Some 1, True, None)
   \<and> transactionOpen (sessions (snd (startSessionOrUseExisting ctx_plain engine_ok True world1)) 1)
   \<and> inTransaction (handles (snd (startSessionOrUseExisting ctx_plain engine_ok True world1)) 1)
   \<and> fst (startSessionOrUseExisting ctx_plain engine_no_tx True world1)
     = Returns (None, False, Some (OtherError ''no connection''))"
  using startSessionOrUseExisting_new_session [of ctx_plain True engine_ok world1]
        startSessionOrUseExisting_new_session [of ctx_plain True engine_no_tx world1]
  by (simp add: ctx_plain_def engine_ok_def engine_no_tx_def world1_def)

text \<open>
  C10. When acquisition finds a session in the context, asking for a transaction changes
  nothing: the call with the flag set returns the same result and the same world as the
  call without it. The session keeps its \<^verbatim>\<open>transactionOpen\<close> flag and its queue of events,
  its handle is in a transaction only if it was before, and the database is untouched.
\<close>

theorem startSessionOrUseExisting_reuse_ignores_beginTran:
  assumes "ctx_session ctx = DBSessionPtr (Some a)"
  shows "startSessionOrUseExisting ctx eng True w = startSessionOrUseExisting ctx eng False w
     \<and> transactionOpen (sessions (snd (startSessionOrUseExisting ctx eng True w)) a)
         = transactionOpen (sessions w a)
     \<and> events (sessions (snd (startSessionOrUseExisting ctx eng True w)) a) = events (sessions w a)
     \<and> inTransaction (handles (snd (startSessionOrUseExisting ctx eng True w)) (Session (sessions w a)))
         = inTransaction (handles w (Session (sessions w a)))
     \<and> db (snd (startSessionOrUseExisting ctx eng True w)) = db w"
  using assms by (simp add: startSessionOrUseExisting_def Session_Context_def)

theorem startSessionOrUseExisting_reuse_ignores_beginTran_witness:
  "startSessionOrUseExisting ctx_with_session engine_ok True world1
   = startSessionOrUseExisting ctx_with_session engine_ok False world1
   \<and> \<not> transactionOpen (sessions (snd (startSessionOrUseExisting ctx_with_session engine_ok True world1)) 0)
   \<and> events (sessions (snd (startSessionOrUseExisting ctx_with_session engine_ok True world1)) 0) = [''e'']
   \<and> \<not> inTransaction (handles (snd (startSessionOrUseExisting ctx_with_session engine_ok True world1)) 0)"
proof -
  have carried: "ctx_session ctx_with_session = DBSessionPtr (Some 0)"
    by (simp add: ctx_with_session_def)
  have before: "\<not> transactionOpen (sessions world1 0)" "events (sessions world1 0) = [''e'']"
    "Session (sessions world1 0) = 0" "\<not> inTransaction (handles world1 0)"
    by (simp_all add: world1_def)
  from startSessionOrUseExisting_reuse_ignores_beginTran [OF carried, of engine_ok world1] before
  show ?thesis by metis
qed

subsection \<open>Work execution\<close>

lemma withDbSession_reuse:
  assumes "ctx_session ctx = DBSessionPtr (Some a)"
  shows "withDbSession ss ctx eng callback w
         = (fst (Retry (retryOnLocks ss ctx callback (Some a)) (QueryRetries (dbCfg ss))
                  (Millisecond * 10) Second
                  (0, snd (Session_Context (Session (sessions w a)) ctx w))),
            snd (snd (Retry (retryOnLocks ss ctx callback (Some a)) (QueryRetries (dbCfg ss))
                  (Millisecond * 10) Second
                  (0, snd (Session_Context (Session (sessions w a)) ctx w)))))"
  using assms
  by (simp add: withDbSession_def startSessionOrUseExisting_def Session_Context_def
        split: prod.splits)

lemma withDbSession_new:
  assumes "\<forall>p. ctx_session ctx \<noteq> DBSessionPtr p"
  shows "withDbSession ss ctx eng callback w
         = (fst (Retry (retryOnLocks ss ctx callback (Some (next_addr w)))
                  (QueryRetries (dbCfg ss)) (Millisecond * 10) Second
                  (0, snd (startSessionOrUseExisting ctx eng False w))),
            Session_Close (next_handle w)
              (snd (snd (Retry (retryOnLocks ss ctx callback (Some (next_addr w)))
                  (QueryRetries (dbCfg ss)) (Millisecond * 10) Second
                  (0, snd (startSessionOrUseExisting ctx eng False w))))))"
  using assms
  by (cases "ctx_session ctx")
     (simp_all add: withDbSession_def startSessionOrUseExisting_def Session_Context_def
        NewSession_def new_DBSession_def Let_def split: prod.splits)

lemma WithNewDbSession_unfold:
  "WithNewDbSession ss ctx callback w
   = (fst (Retry (retryOnLocks ss ctx callback (Some (next_addr w)))
             (QueryRetries (dbCfg ss)) (Millisecond * 10) Second
             (0, fresh_session (engine ss) w)),
      Session_Close (next_handle w)
        (snd (snd (Retry (retryOnLocks ss ctx callback (Some (next_addr w)))
             (QueryRetries (dbCfg ss)) (Millisecond * 10) Second
             (0, fresh_session (engine ss) w)))))"
  by (simp add: WithNewDbSession_def fresh_session_def NewSession_def new_DBSession_def Let_def
        split: prod.splits)

text \<open>
  C5. \<^verbatim>\<open>withDbSession\<close> closes the session exactly when it created it. With a session
  found in the context, the world it leaves is the world after the rebinding of the handle
  followed by the calls of the callback and nothing else; so a handle the callback never
  closes or reopens is closed afterwards only if it was closed before. With no session in
  the context, the handle of the session created here is closed in the world the operation
  leaves, whether the callback succeeded, failed or panicked, and that world is the one the
  calls of the callback left, with this handle closed.
\<close>

theorem withDbSession_closes_iff_new:
  "(ctx_session ctx = DBSessionPtr (Some a) \<longrightarrow>
      (\<exists>n>0. snd (withDbSession ss ctx eng callback w)
             = (attempt callback (Some a) ^^ n)
                 (snd (Session_Context (Session (sessions w a)) ctx w)))
    \<and> ((\<forall>s x. isClosed (handles (attempt callback s x) h) = isClosed (handles x h)) \<longrightarrow>
         isClosed (handles (snd (withDbSession ss ctx eng callback w)) h)
         = isClosed (handles w h)))
   \<and> ((\<forall>p. ctx_session ctx \<noteq> DBSessionPtr p) \<longrightarrow>
        isClosed (handles (snd (withDbSession ss ctx eng callback w)) (next_handle w))
      \<and> (\<exists>n>0. snd (withDbSession ss ctx eng callback w)
             = Session_Close (next_handle w)
                 ((attempt callback (Some (next_addr w)) ^^ n)
                    (snd (startSessionOrUseExisting ctx eng False w)))))"
proof (intro conjI impI)
  assume reuse: "ctx_session ctx = DBSessionPtr (Some a)"
  let ?w1 = "snd (Session_Context (Session (sessions w a)) ctx w)"
  from Retry_trace [of ss ctx callback "Some a" "QueryRetries (dbCfg ss)" "Millisecond * 10"
                      Second 0 ?w1]
  obtain n where n: "0 < n"
    "snd (snd (Retry (retryOnLocks ss ctx callback (Some a)) (QueryRetries (dbCfg ss))
                 (Millisecond * 10) Second (0, ?w1)))
     = (attempt callback (Some a) ^^ n) ?w1"
    by blast
  then have final: "snd (withDbSession ss ctx eng callback w) = (attempt callback (Some a) ^^ n) ?w1"
    by (simp add: withDbSession_reuse [OF reuse])
  with n show "\<exists>n>0. snd (withDbSession ss ctx eng callback w) = (attempt callback (Some a) ^^ n) ?w1"
    by blast
  assume keeps: "\<forall>s x. isClosed (handles (attempt callback s x) h) = isClosed (handles x h)"
  have "isClosed (handles ((attempt callback (Some a) ^^ n) ?w1) h) = isClosed (handles ?w1 h)"
    by (rule funpow_keeps [where P = "\<lambda>x. isClosed (handles x h)"]) (simp add: keeps)
  with final show "isClosed (handles (snd (withDbSession ss ctx eng callback w)) h)
                   = isClosed (handles w h)"
    by (simp add: Session_Context_def)
next
  assume new: "\<forall>p. ctx_session ctx \<noteq> DBSessionPtr p"
  show "isClosed (handles (snd (withDbSession ss ctx eng callback w)) (next_handle w))"
    by (simp add: withDbSession_new [OF new] Session_Close_def)
  let ?w1 = "snd (startSessionOrUseExisting ctx eng False w)"
  from Retry_trace [of ss ctx callback "Some (next_addr w)" "QueryRetries (dbCfg ss)"
                      "Millisecond * 10" Second 0 ?w1]
  show "\<exists>n>0. snd (withDbSession ss ctx eng callback w)
             = Session_Close (next_handle w)
                 ((attempt callback (Some (next_addr w)) ^^ n) ?w1)"
    by (auto simp add: withDbSession_new [OF new])
qed

theorem withDbSession_closes_iff_new_witness:
  "isClosed (handles (snd (withDbSession store5 ctx_plain engine_ok busy_callback world1)) 1)
   \<and> \<not> isClosed (handles (snd (withDbSession store5 ctx_with_session engine_ok busy_callback world1)) 0)"
  using withDbSession_closes_iff_new [of ctx_plain 0 store5 engine_ok busy_callback world1 0]
        withDbSession_closes_iff_new [of ctx_with_session 0 store5 engine_ok busy_callback world1 0]
  by (simp add: ctx_plain_def ctx_with_session_def busy_callback_def attempt_def world1_def)

text \<open>
  C6. \<^verbatim>\<open>WithNewDbSession\<close> builds its session at an address not used before, whatever
  the context carries: the result does not depend on the session value of the context, and
  a session allocated earlier is neither the new one nor changed by its creation. The
  callback is run by the retry executor on the new session only (a callback that agrees
  with it on that session gives the same result), and the handle of the new session is
  closed in the world the operation leaves, whatever the outcome; nothing but the
  creation, the calls of the callback and the closing has acted on the world.
\<close>

theorem WithNewDbSession_fresh_and_closed:
  "isClosed (handles (snd (WithNewDbSession ss ctx callback w)) (next_handle w))
   \<and> (\<exists>n>0. snd (WithNewDbSession ss ctx callback w)
          = Session_Close (next_handle w)
              ((attempt callback (Some (next_addr w)) ^^ n) (fresh_session (engine ss) w)))
   \<and> fst (WithNewDbSession ss ctx callback w)
       = fst (Retry (retryOnLocks ss ctx callback (Some (next_addr w)))
                (QueryRetries (dbCfg ss)) (Millisecond * 10) Second
                (0, fresh_session (engine ss) w))
   \<and> WithNewDbSession ss (ctx\<lparr>ctx_session := v\<rparr>) callback w = WithNewDbSession ss ctx callback w
   \<and> (a < next_addr w \<longrightarrow>
        next_addr w \<noteq> a \<and> sessions (fresh_session (engine ss) w) a = sessions w a)
   \<and> ((\<forall>x. callback' (Some (next_addr w)) x = callback (Some (next_addr w)) x) \<longrightarrow>
        WithNewDbSession ss ctx callback' w = WithNewDbSession ss ctx callback w)"
proof (intro conjI impI)
  show "isClosed (handles (snd (WithNewDbSession ss ctx callback w)) (next_handle w))"
    by (simp add: WithNewDbSession_unfold Session_Close_def)
  from Retry_trace [of ss ctx callback "Some (next_addr w)" "QueryRetries (dbCfg ss)"
                      "Millisecond * 10" Second 0 "fresh_session (engine ss) w"]
  show "\<exists>n>0. snd (WithNewDbSession ss ctx callback w)
          = Session_Close (next_handle w)
              ((attempt callback (Some (next_addr w)) ^^ n) (fresh_session (engine ss) w))"
    by (auto simp add: WithNewDbSession_unfold)
  show "fst (WithNewDbSession ss ctx callback w)
       = fst (Retry (retryOnLocks ss ctx callback (Some (next_addr w)))
                (QueryRetries (dbCfg ss)) (Millisecond * 10) Second
                (0, fresh_session (engine ss) w))"
    by (simp add: WithNewDbSession_unfold)
  show "WithNewDbSession ss (ctx\<lparr>ctx_session := v\<rparr>) callback w = WithNewDbSession ss ctx callback w"
    by (simp add: WithNewDbSession_unfold
          retryOnLocks_ctx [of ss "ctx\<lparr>ctx_session := v\<rparr>" callback _ ctx])
next
  assume "a < next_addr w"
  then show "next_addr w \<noteq> a" by simp
  show "sessions (fresh_session (engine ss) w) a = sessions w a"
    using \<open>a < next_addr w\<close>
    by (simp add: fresh_session_def NewSession_def new_DBSession_def Let_def)
next
  assume "\<forall>x. callback' (Some (next_addr w)) x = callback (Some (next_addr w)) x"
  then have "retryOnLocks ss ctx callback' (Some (next_addr w))
             = retryOnLocks ss ctx callback (Some (next_addr w))"
    by (intro retryOnLocks_callback) simp
  then show "WithNewDbSession ss ctx callback' w = WithNewDbSession ss ctx callback w"
    by (simp add: WithNewDbSession_unfold)
qed

theorem WithNewDbSession_fresh_and_closed_witness:
  "isClosed (handles (snd (WithNewDbSession store5 ctx_with_session busy_callback world1)) 1)
   \<and> sessions (fresh_session (engine store5) world1) 0 = sessions world1 0
   \<and> WithNewDbSession store5 (ctx_with_session\<lparr>ctx_session := NoValue\<rparr>) busy_callback world1
     = WithNewDbSession store5 ctx_with_session busy_callback world1"
  using WithNewDbSession_fresh_and_closed
          [of store5 ctx_with_session busy_callback world1 NoValue 0 busy_callback]
  by (simp add: world1_def)

subsection \<open>Post-commit events\<close>

text \<open>
  C7. Registering two events on a session and then reading its pending events gives the
  events queued before, followed by the two new ones in the order of registration; each
  registration puts its value at the end and changes nothing else of the session.
\<close>

theorem PublishAfterCommit_order:
  "events (PublishAfterCommit (PublishAfterCommit sess e1) e2) = events sess @ [e1, e2]
   \<and> events (PublishAfterCommit sess e1) = events sess @ [e1]
   \<and> take (length (events sess)) (events (PublishAfterCommit sess e1)) = events sess
   \<and> Session (PublishAfterCommit sess e1) = Session sess
   \<and> transactionOpen (PublishAfterCommit sess e1) = transactionOpen sess"
  by (simp add: PublishAfterCommit_def)

subsection \<open>Insert with generated identifier\<close>

text \<open>
  C8, as the code has it. For a bean whose type is known: if the hook before the insert
  fails, \<^verbatim>\<open>InsertId\<close> returns 0 and the error of the hook, the database is as the hook left
  it, and the insert plays no part in the result (any other insert gives the same). If the
  hook after a successful insert fails, \<^verbatim>\<open>InsertId\<close> returns the error of the hook and 0 in
  place of the identifier, and the database is the one the insert and then the hook left:
  the row stays.
\<close>

theorem InsertId_hook_failures:
  assumes ty: "TypeOf env bean = Some t"
  shows "(fst (PreInsertId env (Obj2Table env (getTypeName_of t)) d) = Some e \<longrightarrow>
            InsertId env bean d
            = (Returns (0, Some e), snd (PreInsertId env (Obj2Table env (getTypeName_of t)) d))
          \<and> InsertId (env\<lparr>InsertOne := ins\<rparr>) bean d = InsertId env bean d)
       \<and> (PreInsertId env (Obj2Table env (getTypeName_of t)) d = (None, d1)
          \<and> InsertOne env bean d1 = ((i, None), d2)
          \<and> PostInsertId env (Obj2Table env (getTypeName_of t)) d2 = (Some e, d3) \<longrightarrow>
            InsertId env bean d = (Returns (0, Some e), d3))"
  using ty
  by (cases "PreInsertId env (Obj2Table env (getTypeName_of t)) d")
     (auto simp add: InsertId_def getTypeName_def Let_def)

theorem InsertId_hook_failures_witness:
  "InsertId env_pre_fails ''user'' [] = (Returns (0, Some (OtherError ''pre hook'')), [])
   \<and> InsertId env_post_fails ''user'' [] = (Returns (0, Some (OtherError ''post hook'')), [''user''])"
  using InsertId_hook_failures
          [of env_pre_fails "''user''" "Ptr (Named ''user'')" "[]" "OtherError ''pre hook''"]
        InsertId_hook_failures
          [of env_post_fails "''user''" "Ptr (Named ''user'')" "[]" "OtherError ''post hook''"
              _ "[]" 42 "[''user'']" "[''user'']"]
  by (simp add: env_pre_fails_def env_post_fails_def)

text \<open>
  The claim C8 as it is written has the identifier of the successful insert returned to the
  caller when the hook after the insert fails. Here the hooks before and the insert
  succeed, the insert reports 42, the hook after it fails, and \<^verbatim>\<open>InsertId\<close> returns 0.
\<close>

theorem InsertId_post_hook_failure_returns_zero:
  "fst (PreInsertId env_post_fails ''user'' []) = None
   \<and> InsertOne env_post_fails ''user'' [] = ((42, None), [''user''])
   \<and> fst (PostInsertId env_post_fails ''user'' [''user'']) = Some (OtherError ''post hook'')
   \<and> InsertId env_post_fails ''user'' [] = (Returns (0, Some (OtherError ''post hook'')), [''user''])
   \<and> fst (InsertId env_post_fails ''user'' []) \<noteq> Returns (42, Some (OtherError ''post hook''))"
  by (simp add: env_post_fails_def InsertId_def getTypeName_def)

end
